theory Spec2Isabelle
  imports Main "HOL-Library.Sublist" "HOL-Library.AList" "HOL-Library.Char_ord"
begin

section \<open>Deploy-time lookup of region facts (\<open>deployTimeLookup\<close>)\<close>

text \<open>
  The development embeds the TypeScript module that holds \<open>deployTimeLookup\<close>,
  \<open>ucfirst\<close>, \<open>tokenizedMap\<close> and \<open>replaceAll\<close>. A JavaScript string is a
  \<open>string\<close> (one \<open>char\<close> per code unit). A \<open>Record<string, string>\<close> is the list of
  its entries in the order \<open>Object.entries\<close> enumerates them; the keys of a record are
  pairwise distinct, which theorems that need it assume as \<open>distinct (map fst m)\<close>.
  An optional argument is an \<open>option\<close>; a \<open>throw\<close> is the \<open>Inl\<close> of a sum; the stack
  that the function mutates is passed in and returned.
\<close>

subsection \<open>Strings: \<open>split\<close>, \<open>join\<close>, \<open>replaceAll\<close>\<close>

type_synonym jsobject = "(string \<times> string) list"

text \<open>
  \<open>String.prototype.split\<close> with a string separator \<open>R\<close>. The loop of the language
  definition looks for the next index at or after the current one where \<open>R\<close> occurs,
  emits the text before it and continues behind the occurrence; \<open>T\<close> is the text
  gathered since the last occurrence. The empty separator never reaches the loop (see
  \<open>split\<close>), the guard \<open>R \<noteq> []\<close> only records that.
\<close>

function splitLoop :: "string \<Rightarrow> string \<Rightarrow> string \<Rightarrow> string list" where
  "splitLoop R T [] = [T]"
| "splitLoop R T (c # S) =
     (if R \<noteq> [] \<and> prefix R (c # S)
      then T # splitLoop R [] (drop (length R) (c # S))
      else splitLoop R (T @ [c]) S)"
  by pat_completeness auto
termination
  by (relation "measure (\<lambda>(R, T, S). length S)") auto

text \<open>
  \<open>x.split(pat)\<close>: an empty separator splits into the single code units (and the empty
  string into no piece at all); otherwise the loop above, which gives \<open>[""]\<close> for the
  empty string.
\<close>

definition split :: "string \<Rightarrow> string \<Rightarrow> string list" where
  "split x pat = (if pat = [] then map (\<lambda>c. [c]) x else splitLoop pat [] x)"

text \<open>\<open>Array.prototype.join\<close>.\<close>

fun join :: "string \<Rightarrow> string list \<Rightarrow> string" where
  "join sep [] = []"
| "join sep [x] = x"
| "join sep (x # y # ys) = x @ sep @ join sep (y # ys)"

text \<open>\<open>function replaceAll(x, pat, replacement) { return x.split(pat).join(replacement); }\<close>\<close>

definition replaceAll :: "string \<Rightarrow> string \<Rightarrow> string \<Rightarrow> string" where
  "replaceAll x pat replacement = join replacement (split x pat)"

text \<open>
  The specification's wording of one substitution, for a non-empty \<open>pat\<close>: scan from
  the left; where \<open>pat\<close> occurs literally, emit the token and continue behind the
  occurrence (so occurrences do not overlap and the emitted token is not scanned
  again); otherwise keep the character.
\<close>

function replaceEvery :: "string \<Rightarrow> string \<Rightarrow> string \<Rightarrow> string" where
  "replaceEvery pat tok [] = []"
| "replaceEvery pat tok (c # s) =
     (if pat \<noteq> [] \<and> prefix pat (c # s)
      then tok @ replaceEvery pat tok (drop (length pat) (c # s))
      else c # replaceEvery pat tok s)"
  by pat_completeness auto
termination
  by (relation "measure (\<lambda>(pat, tok, s). length s)") auto

subsection \<open>What the module takes from its environment\<close>

text \<open>
  The module imports these from packages that are not part of the sources at hand, so
  they are parameters:
  \<^item> \<open>domainSuffix region\<close> is \<open>RegionInfo.get(region)?.domainSuffix\<close>, \<open>None\<close> when
    that is \<open>undefined\<close>;
  \<^item> \<open>AWS_REGION\<close> and \<open>AWS_URL_SUFFIX\<close> are the token strings \<open>Aws.REGION\<close> and
    \<open>Aws.URL_SUFFIX\<close>;
  \<^item> \<open>TARGET_PARTITIONS\<close> is \<open>cxapi.TARGET_PARTITIONS\<close>;
  \<^item> \<open>toUpperCase\<close> is \<open>String.prototype.toUpperCase\<close>.
\<close>

record env =
  domainSuffix :: "string \<Rightarrow> string option"
  AWS_REGION :: string
  AWS_URL_SUFFIX :: string
  TARGET_PARTITIONS :: string
  toUpperCase :: "string \<Rightarrow> string"

subsection \<open>The tokenizer (\<open>tokenizedMap\<close>)\<close>

text \<open>
  The body of the loop of \<open>tokenizedMap\<close> for one entry. \<open>if (info?.domainSuffix)\<close>
  is false for \<open>undefined\<close> and for the empty string.
\<close>

definition tokenizedValue :: "env \<Rightarrow> string \<Rightarrow> string \<Rightarrow> string" where
  "tokenizedValue env region value =
     (let tokenizedValue1 =
            (case domainSuffix env region of
               None \<Rightarrow> value
             | Some dsuffix \<Rightarrow>
                 if dsuffix \<noteq> [] then replaceAll value dsuffix (AWS_URL_SUFFIX env) else value)
      in replaceAll tokenizedValue1 region (AWS_REGION env))"

text \<open>
  The assignment \<open>obj[key] = v\<close> on an object that was created as \<open>{}\<close>. For the key
  \<open>__proto__\<close> the assignment reaches the setter that the object inherits from
  \<open>Object.prototype\<close>, and the setter ignores a value that is neither an object nor
  \<open>null\<close>: the object gets no property. Every other key names no inherited setter, so
  the object gets an own property; an existing property keeps its place
  (\<open>AList.update\<close>), a new one is added at the end.
\<close>

definition setProperty :: "jsobject \<Rightarrow> string \<Rightarrow> string \<Rightarrow> jsobject" where
  "setProperty obj key v = (if key = ''__proto__'' then obj else AList.update key v obj)"

text \<open>
  \<open>const ret = {}; for (const [region, value] of Object.entries(regionMap)) { ...; ret[region] = tokenizedValue; }\<close>
\<close>

definition tokenizedMap :: "env \<Rightarrow> jsobject \<Rightarrow> jsobject" where
  "tokenizedMap env regionMap =
     foldl (\<lambda>ret (region, value). setProperty ret region (tokenizedValue env region value))
       [] regionMap"

subsection \<open>Fact names: map id and fact key\<close>

datatype error =
    is_MissingFactError: MissingFactError string
  | is_TypeMismatchError: TypeMismatchError string
  | is_TypeError: TypeError string

text \<open>
  \<open>MissingFactError msg\<close> is the \<open>throw new Error(msg)\<close> of \<open>deployTimeLookup\<close>.
  \<open>TypeError\<close> is the error the JavaScript runtime raises when a member of
  \<open>undefined\<close> is read or a member that is not a function is called.
  \<open>TypeMismatchError\<close> is the error kind that the specification names for a child of
  the wrong kind; no \<open>throw\<close> of the module raises it.
\<close>

text \<open>
  \<open>const [factClass, factParam] = factName.includes(':') ? factName.split(':') : [factName, 'value']\<close>.
  Destructuring takes the first two pieces. With fewer than two pieces a component would
  be \<open>undefined\<close> and the next member access on it (\<open>x.substr\<close>, \<open>factParam.replace\<close>)
  would raise a \<open>TypeError\<close>; \<open>factParts_total\<close> shows that this never happens.
\<close>

definition factParts :: "string \<Rightarrow> error + (string \<times> string)" where
  "factParts factName =
     (if CHR '':'' \<in> set factName
      then (case split factName '':'' of
              factClass # factParam # _ \<Rightarrow> Inr (factClass, factParam)
            | _ \<Rightarrow> Inl (TypeError ''Cannot read properties of undefined''))
      else Inr (factName, ''value''))"

text \<open>\<open>function ucfirst(x) { return `${x.substr(0, 1).toUpperCase()}${x.substr(1)}`; }\<close>\<close>

definition ucfirst :: "env \<Rightarrow> string \<Rightarrow> string" where
  "ucfirst env x = toUpperCase env (take 1 x) @ drop 1 x"

text \<open>\<open>const mapId = `${ucfirst(factClass)}Map`\<close>\<close>

definition mapId :: "env \<Rightarrow> string \<Rightarrow> string" where
  "mapId env factClass = ucfirst env factClass @ ''Map''"

text \<open>The character class \<open>[a-zA-Z0-9]\<close>.\<close>

definition alnum :: "char \<Rightarrow> bool" where
  "alnum c \<longleftrightarrow>
     (CHR ''a'' \<le> c \<and> c \<le> CHR ''z'') \<or> (CHR ''A'' \<le> c \<and> c \<le> CHR ''Z'')
     \<or> (CHR ''0'' \<le> c \<and> c \<le> CHR ''9'')"

text \<open>\<open>const factKey = factParam.replace(/[^a-zA-Z0-9]/g, '_')\<close>\<close>

definition factKey :: "string \<Rightarrow> string" where
  "factKey factParam = map (\<lambda>c. if alnum c then c else CHR ''_'') factParam"

subsection \<open>The stack and its mappings\<close>

text \<open>
  Modelled from the spec: the construct tree and the class \<open>CfnMapping\<close> are not
  among the sources at hand. The specification's output scope offers
  \<open>findChild(identity)\<close> and owns a table created under it; its table construct offers
  \<open>setCell(key, rowKey, literal)\<close>, which overwrites the cell, and
  \<open>findInTable(index, rowKey)\<close>, which gives the deferred expression
  \<open>table[identity][index][rowKey]\<close>. A stack is the list of its children with their
  identities, in the order of creation. A child is a \<open>CfnMapping\<close> with its cells, or a
  construct of another kind, which has no member \<open>setValue\<close> or \<open>findInMap\<close>.
\<close>

datatype construct =
    CfnMapping "string \<times> string \<rightharpoonup> string"
  | OtherConstruct

record Stack =
  children :: "(string \<times> construct) list"

text \<open>
  What \<open>deployTimeLookup\<close> returns: a string (the default value, or a tokenized value
  with its token markers), or the deferred expression of \<open>findInMap\<close> with the map id
  and the two keys. \<open>Undefined\<close> is \<open>tokenizedValues[0]\<close> of an empty array.
\<close>

datatype expression =
    StringValue string
  | FindInMap string string string
  | Undefined

text \<open>
  Modelled from the spec: \<open>stack.node.tryFindChild(id)\<close>, the specification's
  \<open>findChild(identity)\<close>: the child registered under the identity, if any.
\<close>

definition tryFindChild :: "Stack \<Rightarrow> string \<Rightarrow> construct option" where
  "tryFindChild stack ident = map_of (children stack) ident"

text \<open>
  Modelled from the spec: \<open>new CfnMapping(stack, mapId)\<close> creates an empty table and
  registers it under the identity in the scope, as its last child.
\<close>

definition newCfnMapping :: "Stack \<Rightarrow> string \<Rightarrow> construct \<times> Stack" where
  "newCfnMapping stack ident =
     (CfnMapping Map.empty, stack\<lparr>children := children stack @ [(ident, CfnMapping Map.empty)]\<rparr>)"

text \<open>
  Modelled from the spec: \<open>mapping.setValue(key1, key2, value)\<close>, the specification's
  \<open>setCell\<close>, sets the cell and overwrites a value it had. The cast
  \<open>as CfnMapping | undefined\<close> of \<open>deployTimeLookup\<close> is not checked when the program
  runs, so the call goes to whatever child was found; on a child without the member the
  runtime raises its \<open>TypeError\<close>.
\<close>

definition setValue :: "construct \<Rightarrow> string \<Rightarrow> string \<Rightarrow> string \<Rightarrow> error + construct" where
  "setValue mapping key1 key2 v =
     (case mapping of
        CfnMapping cells \<Rightarrow> Inr (CfnMapping (cells((key1, key2) \<mapsto> v)))
      | OtherConstruct \<Rightarrow> Inl (TypeError ''mapping.setValue is not a function''))"

text \<open>
  Modelled from the spec: \<open>mapping.findInMap(key1, key2)\<close>, the specification's
  \<open>findInTable\<close>, gives the deferred expression for the table's identity and the two
  keys; it is not evaluated.
\<close>

definition findInMap :: "construct \<Rightarrow> string \<Rightarrow> string \<Rightarrow> string \<Rightarrow> error + expression" where
  "findInMap mapping ident key1 key2 =
     (case mapping of
        CfnMapping cells \<Rightarrow> Inr (FindInMap ident key1 key2)
      | OtherConstruct \<Rightarrow> Inl (TypeError ''mapping.findInMap is not a function''))"

text \<open>
  \<open>for (const [region, value] of Object.entries(lookupMap)) mapping.setValue(region, factKey, value)\<close>.
  The result is the error that ended the loop, if any, and the object as the loop left it.
\<close>

fun setValues :: "construct \<Rightarrow> string \<Rightarrow> jsobject \<Rightarrow> error option \<times> construct" where
  "setValues mapping fk [] = (None, mapping)"
| "setValues mapping fk ((region, value) # rest) =
     (case setValue mapping region fk value of
        Inl e \<Rightarrow> (Some e, mapping)
      | Inr mapping' \<Rightarrow> setValues mapping' fk rest)"

text \<open>
  The mapping is an object that the stack holds: what the loop did to it is seen through
  the stack. \<open>storeChild\<close> writes the object back in its place.
\<close>

definition storeChild :: "Stack \<Rightarrow> string \<Rightarrow> construct \<Rightarrow> Stack" where
  "storeChild stack ident c = stack\<lparr>children := AList.update ident c (children stack)\<rparr>"

subsection \<open>\<open>deployTimeLookup\<close>\<close>

text \<open>The second half of \<open>deployTimeLookup\<close>, from the derivation of the map name on.\<close>

definition materialize :: "env \<Rightarrow> Stack \<Rightarrow> string \<Rightarrow> jsobject \<Rightarrow> (error + expression) \<times> Stack" where
  "materialize env stack factName lookupMap =
     (case factParts factName of
        Inl e \<Rightarrow> (Inl e, stack)
      | Inr (factClass, factParam) \<Rightarrow>
          (let (mapping, stack1) =
                 (case tryFindChild stack (mapId env factClass) of
                    Some c \<Rightarrow> (c, stack)
                  | None \<Rightarrow> newCfnMapping stack (mapId env factClass))
           in case setValues mapping (factKey factParam) lookupMap of
                (Some e, mapping') \<Rightarrow> (Inl e, storeChild stack1 (mapId env factClass) mapping')
              | (None, mapping') \<Rightarrow>
                  (findInMap mapping' (mapId env factClass) (AWS_REGION env) (factKey factParam),
                   storeChild stack1 (mapId env factClass) mapping')))"

text \<open>\<open>tokenizedValues.every((v) => v === tokenizedValues[0])\<close>\<close>

definition collapses :: "env \<Rightarrow> jsobject \<Rightarrow> bool" where
  "collapses env lookupMap =
     (case map snd (tokenizedMap env lookupMap) of
        [] \<Rightarrow> True
      | v0 # vs \<Rightarrow> list_all (\<lambda>v. v = v0) (v0 # vs))"

definition missingFactMessage :: "env \<Rightarrow> string \<Rightarrow> string" where
  "missingFactMessage env factName =
     ''region-info: don't have any information for '' @ factName
     @ ''. Use 'Fact.register' to provide values, or add partitions to the ''
     @ [CHR 0x27] @ TARGET_PARTITIONS env @ [CHR 0x27] @ '' context value.''"

definition deployTimeLookup ::
  "env \<Rightarrow> Stack \<Rightarrow> string \<Rightarrow> jsobject \<Rightarrow> string option \<Rightarrow> (error + expression) \<times> Stack" where
  "deployTimeLookup env stack factName lookupMap defaultValue =
     (if length (map snd lookupMap) = 0
      then (case defaultValue of
              None \<Rightarrow> (Inl (MissingFactError (missingFactMessage env factName)), stack)
            | Some d \<Rightarrow> (Inr (StringValue d), stack))
      else if collapses env lookupMap
      then (case map snd (tokenizedMap env lookupMap) of
              [] \<Rightarrow> (Inr Undefined, stack)
            | v0 # vs \<Rightarrow> (Inr (StringValue v0), stack))
      else materialize env stack factName lookupMap)"

subsection \<open>Reading a cell, and an environment for examples\<close>


text \<open>
  An environment for the examples: the regions \<open>a\<close>, \<open>b\<close> and \<open>us-east-1\<close> have the
  domain suffix \<open>example\<close>, every other region has none; the two tokens are written
  \<open><REGION>\<close> and \<open><SUFFIX>\<close>; \<open>toUpperCase\<close> is the one of the ASCII letters.
\<close>

definition asciiUpper :: "char \<Rightarrow> char" where
  "asciiUpper c =
     (case map_of (zip ''abcdefghijklmnopqrstuvwxyz'' ''ABCDEFGHIJKLMNOPQRSTUVWXYZ'') c of
        Some u \<Rightarrow> u
      | None \<Rightarrow> c)"

definition testEnv :: env where
  "testEnv =
     \<lparr> domainSuffix =
         (\<lambda>region. if region \<in> {''a'', ''b'', ''us-east-1''} then Some ''example'' else None),
       AWS_REGION = ''<REGION>'',
       AWS_URL_SUFFIX = ''<SUFFIX>'',
       TARGET_PARTITIONS = ''@aws-cdk/core:target-partitions'',
       toUpperCase = map asciiUpper \<rparr>"


section \<open>Properties\<close>

subsection \<open>Auxiliary facts\<close>

lemma splitLoop_nonempty: "splitLoop R T S \<noteq> []"
  by (induction R T S rule: splitLoop.induct) auto

lemma join_Cons: "xs \<noteq> [] \<Longrightarrow> join sep (x # xs) = x @ sep @ join sep xs"
  by (cases xs) auto

lemma join_splitLoop: "R \<noteq> [] \<Longrightarrow> join tok (splitLoop R T S) = T @ replaceEvery R tok S"
  by (induction R T S rule: splitLoop.induct) (auto simp: join_Cons splitLoop_nonempty)

lemma replaceAll_replaceEvery: "pat \<noteq> [] \<Longrightarrow> replaceAll x pat tok = replaceEvery pat tok x"
  by (simp add: replaceAll_def split_def join_splitLoop)

lemma splitLoop_two:
  "c0 \<in> set S \<Longrightarrow> \<exists>a b rest. splitLoop [c0] T S = a # b # rest"
proof (induction S arbitrary: T)
  case Nil
  then show ?case by simp
next
  case (Cons c S)
  show ?case
  proof (cases "c = c0")
    case True
    obtain b rest where "splitLoop [c0] [] S = b # rest"
      using splitLoop_nonempty [of "[c0]" "[]" S] by (cases "splitLoop [c0] [] S") auto
    with True show ?thesis by simp
  next
    case False
    with Cons.prems have "c0 \<in> set S" by simp
    from Cons.IH [OF this, of "T @ [c]"] False show ?thesis by simp
  qed
qed

lemma factParts_total: "\<exists>factClass factParam. factParts factName = Inr (factClass, factParam)"
proof (cases "CHR '':'' \<in> set factName")
  case True
  from splitLoop_two [OF this, of "[]"] obtain a b rest
    where "splitLoop '':'' [] factName = a # b # rest" by blast
  with True show ?thesis by (simp add: factParts_def split_def)
next
  case False
  then show ?thesis by (simp add: factParts_def)
qed

lemma update_fresh: "k \<notin> fst ` set al \<Longrightarrow> AList.update k v al = al @ [(k, v)]"
  by (induction al) auto

lemma tokenize_foldl:
  "distinct (map fst m) \<Longrightarrow> fst ` set acc \<inter> fst ` set m = {} \<Longrightarrow>
   foldl (\<lambda>ret (region, value). setProperty ret region (f region value)) acc m
     = acc @ map (\<lambda>(region, value). (region, f region value))
               (filter (\<lambda>(region, value). region \<noteq> ''__proto__'') m)"
proof (induction m arbitrary: acc)
  case Nil
  then show ?case by simp
next
  case (Cons p m)
  obtain r v where p: "p = (r, v)" by (cases p)
  show ?case
  proof (cases "r = ''__proto__''")
    case True
    have "fst ` set acc \<inter> fst ` set m = {}"
      using Cons.prems by auto
    with Cons.IH [of acc] Cons.prems True show ?thesis
      by (simp add: p setProperty_def)
  next
    case False
    from Cons.prems p have fresh: "r \<notin> fst ` set acc" by auto
    have "fst ` set (acc @ [(r, f r v)]) \<inter> fst ` set m = {}"
      using Cons.prems p by auto
    with Cons.IH [of "acc @ [(r, f r v)]"] Cons.prems False
    show ?thesis by (simp add: p setProperty_def update_fresh [OF fresh])
  qed
qed

lemma tokenizedMap_distinct:
  "distinct (map fst m) \<Longrightarrow>
   tokenizedMap env m
     = map (\<lambda>(region, value). (region, tokenizedValue env region value))
         (filter (\<lambda>(region, value). region \<noteq> ''__proto__'') m)"
  unfolding tokenizedMap_def using tokenize_foldl [of m "[]"] by simp

lemma set_update_sub: "set (AList.update k v al) \<subseteq> insert (k, v) (set al)"
  by (induction al) auto

lemma tokenize_foldl_sound:
  "(r, t) \<in> set (foldl (\<lambda>ret (region, value). setProperty ret region (f region value)) acc m) \<Longrightarrow>
   (r, t) \<in> set acc \<or> (\<exists>v. (r, v) \<in> set m \<and> t = f r v)"
proof (induction m arbitrary: acc)
  case Nil
  then show ?case by simp
next
  case (Cons p m)
  obtain r' v' where p: "p = (r', v')" by (cases p)
  from Cons.prems have "(r, t) \<in> set (foldl (\<lambda>ret (region, value). setProperty ret region (f region value))
      (setProperty acc r' (f r' v')) m)"
    by (simp add: p)
  from Cons.IH [OF this] consider "(r, t) \<in> set (setProperty acc r' (f r' v'))"
    | "\<exists>v. (r, v) \<in> set m \<and> t = f r v" by blast
  then show ?case
  proof cases
    case 1
    then have "(r, t) \<in> insert (r', f r' v') (set acc)"
      using set_update_sub [of r' "f r' v'" acc] by (auto simp: setProperty_def split: if_splits)
    then show ?thesis by (auto simp: p)
  next
    case 2
    then show ?thesis by auto
  qed
qed

lemma tokenizedMap_sound:
  "(r, t) \<in> set (tokenizedMap env m) \<Longrightarrow> \<exists>v. (r, v) \<in> set m \<and> t = tokenizedValue env r v"
  unfolding tokenizedMap_def by (drule tokenize_foldl_sound) simp

lemma code_ranges:
  "(97::nat) \<le> n \<and> n \<le> 122 \<longleftrightarrow> n \<in> of_char ` set ''abcdefghijklmnopqrstuvwxyz''"
  "(65::nat) \<le> n \<and> n \<le> 90 \<longleftrightarrow> n \<in> of_char ` set ''ABCDEFGHIJKLMNOPQRSTUVWXYZ''"
  "(48::nat) \<le> n \<and> n \<le> 57 \<longleftrightarrow> n \<in> of_char ` set ''0123456789''"
  by (simp, arith)+

lemma alnum_enum:
  "alnum c \<longleftrightarrow> c \<in> set ''abcdefghijklmnopqrstuvwxyzABCDEFGHIJKLMNOPQRSTUVWXYZ0123456789''"
proof -
  have inj: "c \<in> set S \<longleftrightarrow> (of_char c :: nat) \<in> of_char ` set S" for S
    by auto
  have cat: "''abcdefghijklmnopqrstuvwxyzABCDEFGHIJKLMNOPQRSTUVWXYZ0123456789''
      = ''abcdefghijklmnopqrstuvwxyz'' @ ''ABCDEFGHIJKLMNOPQRSTUVWXYZ'' @ ''0123456789''"
    by simp
  have "alnum c \<longleftrightarrow> ((97::nat) \<le> of_char c \<and> of_char c \<le> (122::nat))
      \<or> ((65::nat) \<le> of_char c \<and> of_char c \<le> (90::nat))
      \<or> ((48::nat) \<le> of_char c \<and> of_char c \<le> (57::nat))"
    by (simp add: alnum_def less_eq_char_def)
  then show ?thesis
    unfolding code_ranges cat inj set_append image_Un Un_iff by (simp only: disj_assoc)
qed


lemma setValues_OtherConstruct:
  "m \<noteq> [] \<Longrightarrow>
   setValues OtherConstruct fk m = (Some (TypeError ''mapping.setValue is not a function''), OtherConstruct)"
  by (cases m) (auto simp: setValue_def)



lemma storeChild_same:
  "tryFindChild stack ident = Some c \<Longrightarrow> storeChild stack ident c = stack"
  by (simp add: storeChild_def tryFindChild_def update_triv)






lemma materialize_mistyped:
  assumes "factParts factName = Inr (factClass, factParam)"
    and "tryFindChild stack (mapId env factClass) = Some OtherConstruct"
    and "m \<noteq> []"
  shows "materialize env stack factName m =
     (Inl (TypeError ''mapping.setValue is not a function''), stack)"
  using assms by (simp add: materialize_def setValues_OtherConstruct storeChild_same)

lemma setValues_error:
  "setValues mapping fk m = (Some e, mapping') \<Longrightarrow> is_TypeError e"
  by (induction mapping fk m rule: setValues.induct)
     (auto simp: setValue_def split: construct.splits sum.splits)

lemma factParts_error: "factParts factName = Inl e \<Longrightarrow> is_TypeError e"
  by (auto simp: factParts_def split: if_splits list.splits)

lemma findInMap_result:
  "findInMap mapping ident key1 key2 = Inl e \<Longrightarrow> is_TypeError e"
  "findInMap mapping ident key1 key2 \<noteq> Inr (StringValue s)"
  by (auto simp: findInMap_def split: construct.splits)

lemma materialize_error:
  "fst (materialize env stack factName m) = Inl e \<Longrightarrow> is_TypeError e"
  by (auto simp: materialize_def Let_def split: sum.splits prod.splits option.splits
      dest: factParts_error setValues_error findInMap_result(1))

lemma deployTimeLookup_materialize:
  "m \<noteq> [] \<Longrightarrow> \<not> collapses env m \<Longrightarrow>
   deployTimeLookup env stack factName m d = materialize env stack factName m"
  by (simp add: deployTimeLookup_def)





lemma never_TypeMismatchError:
  "fst (deployTimeLookup env stack factName m d) \<noteq> Inl (TypeMismatchError msg)"
proof
  assume a: "fst (deployTimeLookup env stack factName m d) = Inl (TypeMismatchError msg)"
  then have "fst (materialize env stack factName m) = Inl (TypeMismatchError msg)"
    by (auto simp: deployTimeLookup_def split: if_splits option.splits list.splits)
  from materialize_error [OF this] show False by simp
qed

lemma single_entry_other_key:
  "region \<noteq> ''__proto__'' \<Longrightarrow>
   deployTimeLookup env stack factName [(region, value)] defaultValue
     = (Inr (StringValue (tokenizedValue env region value)), stack)"
  by (simp add: deployTimeLookup_def collapses_def tokenizedMap_def setProperty_def)

lemma collapses_distinct:
  assumes "distinct (map fst ((region0, value0) # rest))"
    and "''__proto__'' \<notin> fst ` set ((region0, value0) # rest)"
  shows "collapses env ((region0, value0) # rest) \<longleftrightarrow>
     (\<forall>(region, value) \<in> set ((region0, value0) # rest).
        tokenizedValue env region value = tokenizedValue env region0 value0)"
proof -
  from assms(2) have "filter (\<lambda>(region, value). region \<noteq> ''__proto__'') ((region0, value0) # rest)
      = (region0, value0) # rest"
    by (intro filter_True) force
  then show ?thesis
    unfolding collapses_def tokenizedMap_distinct [OF assms(1)]
    by (auto simp: list_all_iff)
qed

lemma replaceAll_empty: "replaceAll x [] tok = join tok (map (\<lambda>c. [c]) x)"
  by (simp add: replaceAll_def split_def)









text \<open>The definitions that evaluate a call on given arguments.\<close>

lemmas eval_defs = testEnv_def setProperty_def tokenizedValue_def replaceAll_def split_def materialize_def
      factParts_def mapId_def ucfirst_def asciiUpper_def factKey_def alnum_def
      tryFindChild_def newCfnMapping_def setValue_def findInMap_def storeChild_def

subsection \<open>The empty lookup map\<close>

text \<open>
  C4. For every fact name, the lookup with an empty map and no default value fails with
  the missing-fact error. Its message names the fact and points to the two remedies:
  registering a fact with \<open>Fact.register\<close>, or adding partitions to the context value
  of the target partitions. No value is returned.
\<close>

theorem empty_map_no_default_fails:
  "fst (deployTimeLookup env stack factName [] None) =
     Inl (MissingFactError
       (''region-info: don't have any information for '' @ factName
        @ ''. Use 'Fact.register' to provide values, or add partitions to the ''
        @ [CHR 0x27] @ TARGET_PARTITIONS env @ [CHR 0x27] @ '' context value.''))"
  by (simp add: deployTimeLookup_def missingFactMessage_def)

text \<open>
  C6. For every fact name and default value, the lookup with an empty map returns the
  default value as it is, and the stack is the one that was passed in: no mapping is
  created.
\<close>

theorem empty_map_default_returned:
  "deployTimeLookup env stack factName [] (Some d) = (Inr (StringValue d), stack)"
  by (simp add: deployTimeLookup_def)

text \<open>
  C10. When the lookup fails because the map is empty and there is no default value,
  the stack is unchanged: the error is raised before any mapping is created or any
  cell is set.
\<close>

theorem empty_map_failure_keeps_stack:
  "isl (fst (deployTimeLookup env stack factName [] None))
   \<and> snd (deployTimeLookup env stack factName [] None) = stack"
  by (simp add: deployTimeLookup_def)

subsection \<open>Collapse\<close>

text \<open>
  C1. The test for the collapse runs over the tokenized values that \<open>tokenizedMap\<close>
  stored. The value of an own key \<open>__proto__\<close> is not stored and takes no part in the
  test: the lookup map with the entries \<open>__proto__: urlA\<close> and \<open>b: urlB\<close> collapses to
  \<open>urlB\<close> and leaves the stack as it was, although the tokenized values of its two
  entries differ. (For a map without that key, \<open>collapses_distinct\<close> gives the test as
  the equality of every tokenized value with the first.)
\<close>

theorem proto_entry_left_out_of_collapse:
  "deployTimeLookup testEnv \<lparr>children = []\<rparr> ''widget:alpha''
      [(''__proto__'', ''urlA''), (''b'', ''urlB'')] None
     = (Inr (StringValue ''urlB''), \<lparr>children = []\<rparr>)
   \<and> tokenizedValue testEnv ''__proto__'' ''urlA'' = ''urlA''
   \<and> tokenizedValue testEnv ''b'' ''urlB'' = ''urlB''"
  by (simp add: deployTimeLookup_def collapses_def tokenizedMap_def eval_defs)

text \<open>
  C7. For a lookup map whose only key is \<open>__proto__\<close>, nothing is stored, the test over
  the empty array holds, and the lookup returns \<open>tokenizedValues[0]\<close>, which is
  \<open>undefined\<close>; the stack is as it was. (For every other single key the tokenized
  value of the entry is returned, \<open>single_entry_other_key\<close>.)
\<close>

theorem single_proto_entry_undefined:
  "deployTimeLookup env stack factName [(''__proto__'', value)] defaultValue = (Inr Undefined, stack)"
  by (simp add: deployTimeLookup_def collapses_def tokenizedMap_def setProperty_def)

subsection \<open>The tokenizer\<close>

text \<open>
  C3. For every key and every value, the tokenizer first replaces the domain suffix of
  the key (if it has a non-empty one) by the URL-suffix token and then treats the key.
  A non-empty key is replaced by the region token. Each of these replacements is the
  literal left-to-right replacement \<open>replaceEvery\<close>: every occurrence found by the scan
  is replaced, occurrences do not overlap, and replaced text is not scanned again. For
  the empty key, the region token is put between each two adjacent code units of the
  value as the first step left it.
\<close>

theorem tokenizer_order:
  "tokenizedValue env region value =
     (let value1 =
            (case domainSuffix env region of
               None \<Rightarrow> value
             | Some dsuffix \<Rightarrow>
                 if dsuffix \<noteq> [] then replaceEvery dsuffix (AWS_URL_SUFFIX env) value else value)
      in if region \<noteq> [] then replaceEvery region (AWS_REGION env) value1
         else join (AWS_REGION env) (map (\<lambda>c. [c]) value1))"
  by (simp add: tokenizedValue_def replaceAll_replaceEvery replaceAll_empty Let_def
      split: option.split)

theorem tokenizer_order_witness:
  "tokenizedValue testEnv ''us-east-1'' ''svc.us-east-1.example'' = ''svc.<REGION>.<SUFFIX>''
   \<and> tokenizedValue testEnv ''x'' ''a.x+axxb'' = ''a.<REGION>+a<REGION><REGION>b''
   \<and> tokenizedValue testEnv '''' ''abc'' = ''a<REGION>b<REGION>c''"
  using tokenizer_order [of testEnv "''us-east-1''" "''svc.us-east-1.example''"]
        tokenizer_order [of testEnv "''x''" "''a.x+axxb''"]
        tokenizer_order [of testEnv "''''" "''abc''"]
  by (simp add: testEnv_def)

text \<open>
  With the empty string as key, \<open>split\<close> cuts the value into its code units and
  \<open>join\<close> puts the region token between them: the token is neither placed at every
  position where the empty string occurs, nor is the substitution skipped.
\<close>

theorem empty_key_counterexample:
  "tokenizedValue testEnv '''' ''ab'' = ''a<REGION>b''
   \<and> tokenizedValue testEnv '''' ''ab'' \<noteq> ''<REGION>a<REGION>b<REGION>''
   \<and> tokenizedValue testEnv '''' ''ab'' \<noteq> ''ab''"
  by (simp add: testEnv_def tokenizedValue_def replaceAll_def split_def)

text \<open>
  C9. For a key whose domain suffix is undefined or empty, the tokenized value is the
  value with only the key replaced by the region token. This is for that key only: for
  every key with a non-empty domain suffix both replacements are made. The tokenizer has
  no error result. In the map that \<open>tokenizedMap\<close> returns, every entry is the tokenized
  value of the entry of the lookup map with the same key; for distinct keys the map
  holds exactly the tokenized entries of the keys other than \<open>__proto__\<close>, in their
  order.
\<close>

theorem missing_suffix_skipped:
  assumes "domainSuffix env region = None \<or> domainSuffix env region = Some []"
  shows "tokenizedValue env region value = replaceAll value region (AWS_REGION env)
    \<and> (\<forall>region' value' d. domainSuffix env region' = Some d \<and> d \<noteq> [] \<longrightarrow>
          tokenizedValue env region' value'
            = replaceAll (replaceAll value' d (AWS_URL_SUFFIX env)) region' (AWS_REGION env))
    \<and> (\<forall>(r, t) \<in> set (tokenizedMap env lookupMap).
          \<exists>v. (r, v) \<in> set lookupMap \<and> t = tokenizedValue env r v)
    \<and> (distinct (map fst lookupMap) \<longrightarrow>
          tokenizedMap env lookupMap
            = map (\<lambda>(r, v). (r, tokenizedValue env r v))
                (filter (\<lambda>(r, v). r \<noteq> ''__proto__'') lookupMap))"
proof -
  have one: "tokenizedValue env region value = replaceAll value region (AWS_REGION env)"
    using assms by (auto simp: tokenizedValue_def)
  have others: "\<forall>region' value' d. domainSuffix env region' = Some d \<and> d \<noteq> [] \<longrightarrow>
      tokenizedValue env region' value'
        = replaceAll (replaceAll value' d (AWS_URL_SUFFIX env)) region' (AWS_REGION env)"
    by (simp add: tokenizedValue_def)
  have stored: "\<forall>(r, t) \<in> set (tokenizedMap env lookupMap).
      \<exists>v. (r, v) \<in> set lookupMap \<and> t = tokenizedValue env r v"
    using tokenizedMap_sound by fast
  from one others stored tokenizedMap_distinct [of lookupMap env] show ?thesis
    by blast
qed

theorem missing_suffix_skipped_witness:
  "domainSuffix testEnv ''zz'' = None
   \<and> tokenizedValue testEnv ''zz'' ''svc.zz.example'' = ''svc.<REGION>.example''
   \<and> tokenizedValue testEnv ''a'' ''svc.a.example'' = ''svc.<REGION>.<SUFFIX>''
   \<and> tokenizedMap testEnv [(''a'', ''svc.a.example''), (''zz'', ''svc.zz.example'')]
       = [(''a'', ''svc.<REGION>.<SUFFIX>''), (''zz'', ''svc.<REGION>.example'')]"
proof -
  have h: "domainSuffix testEnv ''zz'' = None \<or> domainSuffix testEnv ''zz'' = Some []"
    by (simp add: testEnv_def)
  note t = missing_suffix_skipped [OF h, of _ "[(''a'', ''svc.a.example''), (''zz'', ''svc.zz.example'')]"]
  have s: "domainSuffix testEnv ''a'' = Some ''example''"
    by (simp add: testEnv_def)
  from t [of "''svc.zz.example''"] have a: "tokenizedValue testEnv ''zz'' ''svc.zz.example''
      = replaceAll ''svc.zz.example'' ''zz'' (AWS_REGION testEnv)"
    by blast
  from t [of "''''"] s have b: "tokenizedValue testEnv ''a'' ''svc.a.example''
      = replaceAll (replaceAll ''svc.a.example'' ''example'' (AWS_URL_SUFFIX testEnv)) ''a''
          (AWS_REGION testEnv)"
    by force
  from t [of "''''"] have c: "tokenizedMap testEnv [(''a'', ''svc.a.example''), (''zz'', ''svc.zz.example'')]
      = map (\<lambda>(r, v). (r, tokenizedValue testEnv r v))
          (filter (\<lambda>(r, v). r \<noteq> ''__proto__'') [(''a'', ''svc.a.example''), (''zz'', ''svc.zz.example'')])"
    by simp
  have d: "domainSuffix testEnv ''zz'' = None"
    by (simp add: testEnv_def)
  show ?thesis
    unfolding c by (simp add: a b d) (simp add: testEnv_def replaceAll_def split_def)
qed

subsection \<open>The fact key\<close>

text \<open>
  C8. The derivation of the fact key is total. Every fact name splits into a class and a
  parameter (the destructuring never leaves one undefined), and for every parameter the
  fact key is the parameter with each character outside \<open>[A-Za-z0-9]\<close> replaced by
  \<open>_\<close>; it consists of letters, digits and \<open>_\<close> only. The parameter \<open>a.b-c\<close> gives
  \<open>a_b_c\<close>.
\<close>

theorem row_key_total:
  "(\<exists>factClass factParam. factParts factName = Inr (factClass, factParam))
   \<and> factKey factParam =
       map (\<lambda>c. if c \<in> set ''abcdefghijklmnopqrstuvwxyzABCDEFGHIJKLMNOPQRSTUVWXYZ0123456789''
                then c else CHR ''_'') factParam
   \<and> set (factKey factParam)
       \<subseteq> set ''abcdefghijklmnopqrstuvwxyzABCDEFGHIJKLMNOPQRSTUVWXYZ0123456789_''
   \<and> factKey ''a.b-c'' = ''a_b_c''"
proof -
  have a: "factKey p =
       map (\<lambda>c. if c \<in> set ''abcdefghijklmnopqrstuvwxyzABCDEFGHIJKLMNOPQRSTUVWXYZ0123456789''
                then c else CHR ''_'') p" for p
    unfolding factKey_def alnum_enum ..
  have b: "set (factKey factParam)
       \<subseteq> set ''abcdefghijklmnopqrstuvwxyzABCDEFGHIJKLMNOPQRSTUVWXYZ0123456789_''"
    unfolding a by (rule subsetI) (auto split: if_splits)
  have c: "factKey ''a.b-c'' = ''a_b_c''"
    unfolding a by simp
  from factParts_total a b c show ?thesis by blast
qed

subsection \<open>A child of another kind under the map id\<close>

text \<open>
  C5 (as the code has it). The lookup does not check the kind of the child it finds
  under the map id. When a materializing call (non-empty map that does not collapse)
  finds a child that is not a mapping, it creates no mapping and uses the child; the
  first \<open>setValue\<close> then fails with the \<open>TypeError\<close> of the runtime, and the stack is
  the one that was passed in. No call of the lookup ever fails with a
  \<open>TypeMismatchError\<close>.
\<close>

theorem mistyped_child_used_unchecked:
  assumes "lookupMap \<noteq> []"
    and "\<not> collapses env lookupMap"
    and "factParts factName = Inr (factClass, factParam)"
    and "tryFindChild stack (mapId env factClass) = Some OtherConstruct"
  shows "deployTimeLookup env stack factName lookupMap defaultValue
           = (Inl (TypeError ''mapping.setValue is not a function''), stack)
         \<and> (\<forall>env' stack' factName' lookupMap' defaultValue' msg.
               fst (deployTimeLookup env' stack' factName' lookupMap' defaultValue')
                 \<noteq> Inl (TypeMismatchError msg))"
  using assms
  by (simp add: deployTimeLookup_materialize materialize_mistyped never_TypeMismatchError)

theorem mistyped_child_used_unchecked_witness:
  "[(''a'', ''urlA''), (''b'', ''urlB'')] \<noteq> []
   \<and> \<not> collapses testEnv [(''a'', ''urlA''), (''b'', ''urlB'')]
   \<and> factParts ''widget:alpha'' = Inr (''widget'', ''alpha'')
   \<and> tryFindChild \<lparr>children = [(''WidgetMap'', OtherConstruct)]\<rparr> (mapId testEnv ''widget'')
       = Some OtherConstruct
   \<and> deployTimeLookup testEnv \<lparr>children = [(''WidgetMap'', OtherConstruct)]\<rparr> ''widget:alpha''
        [(''a'', ''urlA''), (''b'', ''urlB'')] None
       = (Inl (TypeError ''mapping.setValue is not a function''),
          \<lparr>children = [(''WidgetMap'', OtherConstruct)]\<rparr>)"
  using mistyped_child_used_unchecked [of "[(''a'', ''urlA''), (''b'', ''urlB'')]" testEnv
          "''widget:alpha''" "''widget''" "''alpha''"
          "\<lparr>children = [(''WidgetMap'', OtherConstruct)]\<rparr>" None]
  by (simp add: collapses_def tokenizedMap_def setProperty_def testEnv_def tokenizedValue_def
      replaceAll_def split_def factParts_def mapId_def ucfirst_def asciiUpper_def
      tryFindChild_def)

text \<open>
  The error of such a call is the runtime's \<open>TypeError\<close>, not a
  \<open>TypeMismatchError\<close>.
\<close>

theorem type_mismatch_error_counterexample:
  "tryFindChild \<lparr>children = [(''RegionMap'', OtherConstruct)]\<rparr> (mapId testEnv ''region'')
       = Some OtherConstruct
   \<and> fst (deployTimeLookup testEnv \<lparr>children = [(''RegionMap'', OtherConstruct)]\<rparr> ''region''
        [(''a'', ''urlA''), (''b'', ''urlB'')] None)
       = Inl (TypeError ''mapping.setValue is not a function'')
   \<and> \<not> is_TypeMismatchError (projl (fst (deployTimeLookup testEnv
         \<lparr>children = [(''RegionMap'', OtherConstruct)]\<rparr> ''region''
         [(''a'', ''urlA''), (''b'', ''urlB'')] None)))"
  by (simp add: deployTimeLookup_def collapses_def tokenizedMap_def eval_defs)

subsection \<open>One mapping per class\<close>




end
